theory Spec2Isabelle
  imports Main "HOL-Library.Word"
begin

section \<open>Messages, channels and errors\<close>

text \<open>
  The Go package \<open>gobayeux\<close> (v2) is a Bayeux client. The sources at hand are the HTTP
  and websocket transports, the transport-generic protocol client \<open>BayeuxClientT\<close> and
  the session loop \<open>Client\<close>. The message type, the channel constants, the connection
  state machine, the request builders, the subscriptions map and the error values are
  declared in files that are not among the sources; each of them is introduced below
  under a comment that says so.
\<close>

type_synonym Channel = string
type_synonym bytes = "8 word list"

text \<open>
  Modelled from the spec: the channel constants of the package. The zero value of a
  \<open>Channel\<close> (a Go string) is the empty string, which \<open>emptyChannel\<close> names; the
  meta-channels are the reserved channels of the Bayeux protocol.
\<close>

definition emptyChannel :: Channel where
  "emptyChannel = ''''"

definition MetaHandshake :: Channel where
  "MetaHandshake = ''/meta/handshake''"

definition MetaConnect :: Channel where
  "MetaConnect = ''/meta/connect''"

definition MetaSubscribe :: Channel where
  "MetaSubscribe = ''/meta/subscribe''"

definition MetaUnsubscribe :: Channel where
  "MetaUnsubscribe = ''/meta/unsubscribe''"

definition MetaDisconnect :: Channel where
  "MetaDisconnect = ''/meta/disconnect''"

definition ConnectionTypeLongPolling :: string where
  "ConnectionTypeLongPolling = ''long-polling''"

definition ConnectionTypeWebsocket :: string where
  "ConnectionTypeWebsocket = ''websocket''"

text \<open>
  Modelled from the spec: the advice block of a message (reconnect directive, interval
  and timeout in milliseconds) and the message envelope with the fields the protocol
  client and the session loop read or write. A message is a value; the advice of a
  message may be absent.
\<close>

record Advice =
  Reconnect :: string
  Interval :: int
  Timeout :: int

record Message =
  Channel :: Channel
  ClientID :: string
  Successful :: bool
  Error :: string
  Advice :: "Advice option"
  Version :: string
  SupportedConnectionTypes :: "string list"
  ConnectionType :: string
  Subscription :: "Channel list"
  Ext :: "(string \<times> string) list"

definition zeroMessage :: Message where
  "zeroMessage = \<lparr>Channel = '''', ClientID = '''', Successful = False, Error = '''',
     Advice = None, Version = '''', SupportedConnectionTypes = [], ConnectionType = '''',
     Subscription = [], Ext = []\<rparr>"

text \<open>
  Modelled from the spec: the two readers of the advice that the session loop calls;
  advice says "handshake" by its reconnect directive, and the interval is the advised
  delay (none without advice).
\<close>

definition ShouldHandshake :: "Advice option \<Rightarrow> bool" where
  "ShouldHandshake a = (case a of None \<Rightarrow> False | Some adv \<Rightarrow> Reconnect adv = ''handshake'')"

definition IntervalAsDuration :: "Advice option \<Rightarrow> int" where
  "IntervalAsDuration a = (case a of None \<Rightarrow> 0 | Some adv \<Rightarrow> Interval adv)"

text \<open>
  The error values. \<open>BadResponseError\<close> carries status code, status text and the body
  (\<open>None\<close> is Go's \<open>nil\<close> body); the \<open>...FailedError\<close> values wrap a cause;
  \<open>DisconnectFailedError\<close> may wrap \<open>nil\<close>. \<open>OtherError\<close> stands for errors of the
  libraries (JSON, network, context) identified by their text.
\<close>

datatype error =
    ErrClientNotConnected
  | ErrTooManyMessages
  | ErrBadChannel
  | ErrFailedToConnect
  | InvalidTransition
  | HandshakeFailedError error
  | ConnectionFailedError error
  | SubscriptionFailedError "Channel list" error
  | UnsubscribeFailedError "Channel list" error
  | DisconnectFailedError "error option"
  | HandshakeRequestError string
  | SubscribeRequestError string
  | UnsubscribeRequestError string
  | AlreadySubscribedError Channel
  | NotSubscribedError Channel
  | BadResponseError int string "bytes option"
  | wsError string
  | OtherError string

text \<open>
  Modelled from the spec: the constructors of the server-reported errors, which keep the
  error string of the reply.
\<close>

definition newHandshakeError :: "string \<Rightarrow> error" where
  "newHandshakeError s = HandshakeRequestError s"

definition newSubscribeError :: "string \<Rightarrow> error" where
  "newSubscribeError s = SubscribeRequestError s"

definition newUnsubscribeError :: "string \<Rightarrow> error" where
  "newUnsubscribeError s = UnsubscribeRequestError s"

section \<open>Connection state machine\<close>

text \<open>
  Modelled from the spec: the connection state machine. \<open>handshakeSent\<close> is legal from
  \<open>UNCONNECTED\<close> and \<open>CONNECTED\<close>, \<open>successfullyConnected\<close> from \<open>CONNECTING\<close>,
  \<open>disconnectSent\<close> from every state but the terminal \<open>DISCONNECTED\<close>; an illegal event
  fails with \<open>InvalidTransition\<close> and leaves the state as it is.
\<close>

datatype ConnectionState = UNCONNECTED | CONNECTING | CONNECTED | DISCONNECTED

datatype Event = handshakeSent | successfullyConnected | disconnectSent

fun ProcessEvent :: "ConnectionState \<Rightarrow> Event \<Rightarrow> error + ConnectionState" where
  "ProcessEvent UNCONNECTED handshakeSent = Inr CONNECTING"
| "ProcessEvent CONNECTED handshakeSent = Inr CONNECTING"
| "ProcessEvent CONNECTING successfullyConnected = Inr CONNECTED"
| "ProcessEvent UNCONNECTED disconnectSent = Inr DISCONNECTED"
| "ProcessEvent CONNECTING disconnectSent = Inr DISCONNECTED"
| "ProcessEvent CONNECTED disconnectSent = Inr DISCONNECTED"
| "ProcessEvent _ _ = Inl InvalidTransition"

definition IsConnected :: "ConnectionState \<Rightarrow> bool" where
  "IsConnected s = (s = CONNECTED)"

section \<open>Transports and extensions as the protocol client sees them\<close>

text \<open>
  The interface \<open>transport\<close> of \<open>bayeux_transport.go\<close>: a \<open>request\<close> method and a
  \<open>transportType\<close> method. A transport object is its method table with its current
  state; a call of \<open>request\<close> returns Go's pair of reply and error and the object after
  the call. A \<open>nil\<close> slice is the empty list.
\<close>

record 't transport =
  request_method :: "'t \<Rightarrow> Message list \<Rightarrow> (Message list \<times> error option) \<times> 't"
  transportType :: string
  tstate :: 't

definition transport_request ::
  "'t transport \<Rightarrow> Message list \<Rightarrow> (Message list \<times> error option) \<times> 't transport" where
  "transport_request t ms =
     (case request_method t (tstate t) ms of (r, s') \<Rightarrow> (r, t\<lparr>tstate := s'\<rparr>))"

text \<open>
  The interface \<open>MessageExtender\<close>: two hooks that receive a pointer to a message. A
  hook reads the message the pointer designates, may overwrite it and may change the
  extension's own state: it maps the pointee and the extension state to the new pointee
  and the new extension state.
\<close>

record 'x MessageExtender =
  Outgoing :: "Message \<Rightarrow> 'x \<Rightarrow> Message \<times> 'x"
  Incoming :: "Message \<Rightarrow> 'x \<Rightarrow> Message \<times> 'x"
  xstate :: 'x

section \<open>Protocol client\<close>

record ('t, 'x) BayeuxClientT =
  stateMachine :: ConnectionState
  client :: "'t transport"
  state :: string
  exts :: "'x MessageExtender list"

text \<open>
  The loops \<open>for _, m := range ms { ext.Outgoing(&m) }\<close> of \<open>BayeuxClientT.request\<close>:
  the loop variable \<open>m\<close> is a fresh copy of the element, the hook works on the copy
  through the pointer, and the copy is dropped at the end of the iteration. What remains
  is the extension's own state.
\<close>

fun range_hook :: "(Message \<Rightarrow> 'x \<Rightarrow> Message \<times> 'x) \<Rightarrow> Message list \<Rightarrow> 'x \<Rightarrow> 'x" where
  "range_hook h [] s = s"
| "range_hook h (m # ms) s = (case h m s of (m', s') \<Rightarrow> range_hook h ms s')"

definition run_outgoing :: "'x MessageExtender \<Rightarrow> Message list \<Rightarrow> 'x MessageExtender" where
  "run_outgoing ext ms = ext\<lparr>xstate := range_hook (Outgoing ext) ms (xstate ext)\<rparr>"

definition run_incoming :: "'x MessageExtender \<Rightarrow> Message list \<Rightarrow> 'x MessageExtender" where
  "run_incoming ext ms = ext\<lparr>xstate := range_hook (Incoming ext) ms (xstate ext)\<rparr>"

definition request ::
  "('t, 'x) BayeuxClientT \<Rightarrow> Message list \<Rightarrow>
     (Message list \<times> error option) \<times> ('t, 'x) BayeuxClientT" where
  "request b ms =
     (let b1 = b\<lparr>exts := map (\<lambda>ext. run_outgoing ext ms) (exts b)\<rparr> in
      case transport_request (client b1) ms of
        ((respMs, Some err), t') \<Rightarrow> ((respMs, Some err), b1\<lparr>client := t'\<rparr>)
      | ((respMs, None), t') \<Rightarrow>
          ((respMs, None),
           b1\<lparr>client := t', exts := map (\<lambda>ext. run_incoming ext respMs) (exts b1)\<rparr>))"

text \<open>
  Modelled from the spec: the handshake request builder, which is not among the
  sources. It records the protocol version and the supported connection types in the
  order they are added, and builds one message on the handshake meta-channel carrying
  both. The operations have the source's fallible signatures.
\<close>

record HandshakeRequestBuilder =
  version :: string
  supportedConnectionTypes :: "string list"

definition NewHandshakeRequestBuilder :: HandshakeRequestBuilder where
  "NewHandshakeRequestBuilder = \<lparr>version = '''', supportedConnectionTypes = []\<rparr>"

definition AddVersion :: "HandshakeRequestBuilder \<Rightarrow> string \<Rightarrow> error + HandshakeRequestBuilder" where
  "AddVersion bld v = Inr (bld\<lparr>version := v\<rparr>)"

definition AddSupportedConnectionType ::
  "HandshakeRequestBuilder \<Rightarrow> string \<Rightarrow> error + HandshakeRequestBuilder" where
  "AddSupportedConnectionType bld ct =
     Inr (bld\<lparr>supportedConnectionTypes := supportedConnectionTypes bld @ [ct]\<rparr>)"

definition BuildHandshake :: "HandshakeRequestBuilder \<Rightarrow> error + Message list" where
  "BuildHandshake bld =
     Inr [zeroMessage\<lparr>Channel := MetaHandshake, Version := version bld,
            SupportedConnectionTypes := supportedConnectionTypes bld\<rparr>]"

text \<open>
  Lines 194 to 209 of \<open>Handshake\<close>: the request is built from version "1.0", the
  long-polling connection type and, for a websocket transport, the websocket type.
\<close>

definition handshake_request :: "string \<Rightarrow> error + Message list" where
  "handshake_request ttype =
     (case AddVersion NewHandshakeRequestBuilder ''1.0'' of
        Inl err \<Rightarrow> Inl err
      | Inr b1 \<Rightarrow>
         (case AddSupportedConnectionType b1 ConnectionTypeLongPolling of
            Inl err \<Rightarrow> Inl err
          | Inr b2 \<Rightarrow>
             (if ttype = ConnectionTypeWebsocket
              then (case AddSupportedConnectionType b2 ConnectionTypeWebsocket of
                      Inl err \<Rightarrow> Inl err
                    | Inr b3 \<Rightarrow> BuildHandshake b3)
              else BuildHandshake b2)))"

text \<open>
  The loop of \<open>Handshake\<close> that looks for the reply on the handshake channel: the last
  such message of the reply wins, and the zero message stays when there is none.
\<close>

fun find_handshake :: "Message \<Rightarrow> Message list \<Rightarrow> Message" where
  "find_handshake message [] = message"
| "find_handshake message (m # ms) =
     find_handshake (if Channel m = MetaHandshake then m else message) ms"

definition Handshake ::
  "('t, 'x) BayeuxClientT \<Rightarrow> (Message list \<times> error option) \<times> ('t, 'x) BayeuxClientT" where
  "Handshake b =
     (case ProcessEvent (stateMachine b) handshakeSent of
        Inl err \<Rightarrow> (([], Some (HandshakeFailedError err)), b)
      | Inr sm \<Rightarrow>
         (let b1 = b\<lparr>stateMachine := sm\<rparr> in
          case handshake_request (transportType (client b1)) of
            Inl err \<Rightarrow> (([], Some (HandshakeFailedError err)), b1)
          | Inr ms \<Rightarrow>
             (case request b1 ms of
                ((resp, Some err), b2) \<Rightarrow> (([], Some (HandshakeFailedError err)), b2)
              | ((resp, None), b2) \<Rightarrow>
                 (if length resp > 1
                  then ((resp, Some (HandshakeFailedError ErrTooManyMessages)), b2)
                  else
                   (let message = find_handshake zeroMessage resp in
                    if Channel message = emptyChannel
                    then ((resp, Some (HandshakeFailedError ErrBadChannel)), b2)
                    else if \<not> Successful message
                    then ((resp, Some (newHandshakeError (Error message))), b2)
                    else
                     ((resp, None),
                      b2\<lparr>state := ClientID message,
                         stateMachine :=
                           (case ProcessEvent (stateMachine b2) successfullyConnected of
                              Inl _ \<Rightarrow> stateMachine b2
                            | Inr sm' \<Rightarrow> sm')\<rparr>))))))"

text \<open>
  Modelled from the spec: the builders of the connect, subscribe, unsubscribe and
  disconnect requests, which are not among the sources. The connect request carries the
  client-id and the transport's connection type; a subscribe or unsubscribe request is
  one message carrying the client-id and the full channel list; the disconnect request
  carries the client-id. The results have the fallible type of the source's \<open>Build\<close>.
\<close>

definition connect_request :: "string \<Rightarrow> string \<Rightarrow> error + Message list" where
  "connect_request clientID ttype =
     Inr [zeroMessage\<lparr>Channel := MetaConnect, ClientID := clientID, ConnectionType := ttype\<rparr>]"

definition subscribe_request :: "string \<Rightarrow> Channel list \<Rightarrow> error + Message list" where
  "subscribe_request clientID subscriptions =
     Inr [zeroMessage\<lparr>Channel := MetaSubscribe, ClientID := clientID,
            Subscription := subscriptions\<rparr>]"

definition unsubscribe_request :: "string \<Rightarrow> Channel list \<Rightarrow> error + Message list" where
  "unsubscribe_request clientID subscriptions =
     Inr [zeroMessage\<lparr>Channel := MetaUnsubscribe, ClientID := clientID,
            Subscription := subscriptions\<rparr>]"

definition disconnect_request :: "string \<Rightarrow> error + Message list" where
  "disconnect_request clientID =
     Inr [zeroMessage\<lparr>Channel := MetaDisconnect, ClientID := clientID\<rparr>]"

text \<open>
  The reply checks \<open>for _, m := range resp { if m.Channel == c && !m.Successful ... }\<close>
  return at the first failed message on the meta-channel \<open>c\<close>.
\<close>

fun first_failed :: "Channel \<Rightarrow> Message list \<Rightarrow> Message option" where
  "first_failed c [] = None"
| "first_failed c (m # ms) =
     (if Channel m = c \<and> \<not> Successful m then Some m else first_failed c ms)"

definition Connect ::
  "('t, 'x) BayeuxClientT \<Rightarrow> (Message list \<times> error option) \<times> ('t, 'x) BayeuxClientT" where
  "Connect b =
     (let clientID = state b in
      if \<not> IsConnected (stateMachine b) \<or> clientID = []
      then (([], Some ErrClientNotConnected), b)
      else
       (case connect_request clientID (transportType (client b)) of
          Inl err \<Rightarrow> (([], Some (ConnectionFailedError err)), b)
        | Inr ms \<Rightarrow>
           (case request b ms of
              ((resp, Some err), b') \<Rightarrow> (([], Some (ConnectionFailedError err)), b')
            | ((resp, None), b') \<Rightarrow>
               (case first_failed MetaConnect resp of
                  Some m \<Rightarrow> ((resp, Some (ConnectionFailedError ErrFailedToConnect)), b')
                | None \<Rightarrow> ((resp, None), b')))))"

definition Subscribe ::
  "('t, 'x) BayeuxClientT \<Rightarrow> Channel list \<Rightarrow>
     (Message list \<times> error option) \<times> ('t, 'x) BayeuxClientT" where
  "Subscribe b subscriptions =
     (let clientID = state b in
      if \<not> IsConnected (stateMachine b) \<or> clientID = []
      then (([], Some (SubscriptionFailedError subscriptions ErrClientNotConnected)), b)
      else
       (case subscribe_request clientID subscriptions of
          Inl err \<Rightarrow> (([], Some (SubscriptionFailedError subscriptions err)), b)
        | Inr ms \<Rightarrow>
           (case request b ms of
              ((resp, Some err), b') \<Rightarrow>
                (([], Some (SubscriptionFailedError subscriptions err)), b')
            | ((resp, None), b') \<Rightarrow>
               (case first_failed MetaSubscribe resp of
                  Some m \<Rightarrow>
                    (([], Some (SubscriptionFailedError subscriptions
                                  (newSubscribeError (Error m)))), b')
                | None \<Rightarrow> ((resp, None), b')))))"

definition Unsubscribe ::
  "('t, 'x) BayeuxClientT \<Rightarrow> Channel list \<Rightarrow>
     (Message list \<times> error option) \<times> ('t, 'x) BayeuxClientT" where
  "Unsubscribe b subscriptions =
     (let clientID = state b in
      if \<not> IsConnected (stateMachine b) \<or> clientID = []
      then (([], Some (UnsubscribeFailedError subscriptions ErrClientNotConnected)), b)
      else
       (case unsubscribe_request clientID subscriptions of
          Inl err \<Rightarrow> (([], Some (UnsubscribeFailedError subscriptions err)), b)
        | Inr ms \<Rightarrow>
           (case request b ms of
              ((resp, Some err), b') \<Rightarrow>
                (([], Some (UnsubscribeFailedError subscriptions err)), b')
            | ((resp, None), b') \<Rightarrow>
               (case first_failed MetaUnsubscribe resp of
                  Some m \<Rightarrow>
                    ((resp, Some (UnsubscribeFailedError subscriptions
                                    (newUnsubscribeError (Error m)))), b')
                | None \<Rightarrow> ((resp, None), b')))))"

definition Disconnect ::
  "('t, 'x) BayeuxClientT \<Rightarrow> (Message list \<times> error option) \<times> ('t, 'x) BayeuxClientT" where
  "Disconnect b =
     (let clientID = state b in
      if \<not> IsConnected (stateMachine b) \<or> clientID = []
      then (([], Some (DisconnectFailedError (Some ErrClientNotConnected))), b)
      else
       (case disconnect_request clientID of
          Inl err \<Rightarrow> (([], Some (DisconnectFailedError (Some err))), b)
        | Inr ms \<Rightarrow>
           (case request b ms of
              ((resp, Some err), b') \<Rightarrow> (([], Some (DisconnectFailedError (Some err))), b')
            | ((resp, None), b') \<Rightarrow>
               (case first_failed MetaDisconnect resp of
                  Some m \<Rightarrow> ((resp, Some (DisconnectFailedError None)), b')
                | None \<Rightarrow> ((resp, None), b')))))"

text \<open>
  A transport that keeps a log of the batches it is handed, around any transport: the
  log makes "what was sent" a value that theorems can speak about.
\<close>

definition recording :: "'t transport \<Rightarrow> ('t \<times> Message list list) transport" where
  "recording t =
     \<lparr>request_method =
        (\<lambda>(s, lg) ms. case request_method t s ms of (r, s') \<Rightarrow> (r, (s', lg @ [ms]))),
      transportType = transportType t,
      tstate = (tstate t, [])\<rparr>"

definition sent :: "('t \<times> Message list list) transport \<Rightarrow> Message list list" where
  "sent t = snd (tstate t)"

text \<open>
  \<open>NewBayeuxClientT\<close>: a \<open>nil\<close> transport is refused; the new client has a fresh state
  machine (initial state \<open>UNCONNECTED\<close>), an empty client-id and no extensions.
\<close>

definition NewBayeuxClientT :: "'t transport option \<Rightarrow> error + ('t, 'x) BayeuxClientT" where
  "NewBayeuxClientT cl =
     (case cl of
        None \<Rightarrow> Inl (OtherError ''client must not be nil'')
      | Some t \<Rightarrow> Inr \<lparr>stateMachine = UNCONNECTED, client = t, state = '''', exts = []\<rparr>)"

section \<open>Results of Go calls that may panic\<close>

datatype 'a go_result = Returned 'a | Panic string

section \<open>HTTP long-polling transport\<close>

text \<open>
  An HTTP response as \<open>parseResponse\<close> reads it: status code, status text, and the
  outcome of reading the body to its end (\<open>io.ReadAll\<close>: the bytes, or a read error).
\<close>

record Response =
  StatusCode :: int
  Status :: string
  Body :: "error + bytes"

text \<open>
  The library calls of \<open>BayeuxTransportHttp.request\<close> are parameters: the JSON encoder
  and decoder, \<open>http.NewRequestWithContext\<close> (its error, if any) and \<open>http.Client.Do\<close>,
  which returns Go's pair of a response pointer (\<open>None\<close> is \<open>nil\<close>) and an error. On a
  network failure \<open>Do\<close> returns a \<open>nil\<close> response with the error.
\<close>

record http_env =
  Encode :: "Message list \<Rightarrow> error + bytes"
  NewRequestWithContext :: "bytes \<Rightarrow> error option"
  Do :: "bytes \<Rightarrow> Response option \<times> error option"
  Decode :: "bytes \<Rightarrow> error + Message list"

definition parseResponse :: "http_env \<Rightarrow> Response \<Rightarrow> Message list \<times> error option" where
  "parseResponse env resp =
     (if StatusCode resp \<noteq> 200
      then (case Body resp of
              Inl err \<Rightarrow> ([], Some (BadResponseError (StatusCode resp) (Status resp) None))
            | Inr body \<Rightarrow>
                ([], Some (BadResponseError (StatusCode resp) (Status resp) (Some body))))
      else (case Body resp of
              Inl err \<Rightarrow> ([], Some err)
            | Inr body \<Rightarrow>
               (case Decode env body of
                  Inl err \<Rightarrow> ([], Some err)
                | Inr messages \<Rightarrow> (messages, None))))"

text \<open>
  \<open>request\<close> of the HTTP transport. In the branch \<open>err != nil\<close> the source builds the
  error from \<open>response.StatusCode\<close> and \<open>response.Status\<close>: with a \<open>nil\<close> response the
  field access is a nil-pointer dereference, a run-time panic.
\<close>

definition http_request :: "http_env \<Rightarrow> Message list \<Rightarrow> (Message list \<times> error option) go_result" where
  "http_request env ms =
     (case Encode env ms of
        Inl err \<Rightarrow> Returned ([], Some err)
      | Inr buf \<Rightarrow>
         (case NewRequestWithContext env buf of
            Some err \<Rightarrow> Returned ([], Some err)
          | None \<Rightarrow>
             (case Do env buf of
                (response, Some err) \<Rightarrow>
                  (case response of
                     None \<Rightarrow> Panic ''invalid memory address or nil pointer dereference''
                   | Some r \<Rightarrow>
                       Returned ([], Some (BadResponseError (StatusCode r) (Status r) None)))
              | (response, None) \<Rightarrow>
                  (case response of
                     None \<Rightarrow> Panic ''invalid memory address or nil pointer dereference''
                   | Some r \<Rightarrow> Returned (parseResponse env r)))))"

definition http_transportType :: string where
  "http_transportType = ConnectionTypeLongPolling"

section \<open>Websocket transport\<close>

text \<open>
  The transport object: the connection (present once dialled), the buffered channel
  \<open>msgBuffer\<close> of capacity 100 (its queued frames, oldest first; it is never closed),
  the 32-bit counter \<open>openRequest\<close> and the flag \<open>ready\<close>. The channel \<open>errChan\<close>
  handed to the read loop belongs to the caller; the values the read loop sends on it
  are kept in order.
\<close>

record BayeuxTransportWebsocket =
  conn :: "nat option"
  msgBuffer :: "bytes list"
  openRequest :: "32 word"
  ready :: bool
  errChan :: "error list"


definition NewBayeuxTransportWebsocket :: BayeuxTransportWebsocket where
  "NewBayeuxTransportWebsocket =
     \<lparr>conn = None, msgBuffer = [], openRequest = 0, ready = False, errChan = []\<rparr>"




definition wsErrorBad :: "string \<Rightarrow> error" where
  "wsErrorBad s = wsError s"





definition ws_transportType :: string where
  "ws_transportType = ConnectionTypeWebsocket"


datatype loop_step =
    LoopContinue BayeuxTransportWebsocket
  | LoopReturn "error option" BayeuxTransportWebsocket
  | LoopBlocked BayeuxTransportWebsocket

definition readLoop_dial :: "string + nat \<Rightarrow> BayeuxTransportWebsocket \<Rightarrow> loop_step" where
  "readLoop_dial dialled t =
     (case dialled of
        Inl err \<Rightarrow> LoopReturn (Some (wsErrorBad err)) (t\<lparr>ready := False\<rparr>)
      | Inr c \<Rightarrow> LoopContinue (t\<lparr>conn := Some c, ready := True\<rparr>))"


section \<open>Go channels\<close>

text \<open>
  A channel is its queued values (oldest first), its capacity and whether it has been
  closed. \<open>close\<close> of a closed channel panics; a receive is ready when a value is
  queued or the channel is closed, and on a closed, empty channel it yields the zero
  value; a send on a closed channel panics and otherwise needs room in the buffer
  (the senders modelled here have no receiver waiting at the same moment).
\<close>

record 'a chan =
  chan_buf :: "'a list"
  chan_cap :: nat
  chan_closed :: bool

definition make_chan :: "nat \<Rightarrow> 'a chan" where
  "make_chan n = \<lparr>chan_buf = [], chan_cap = n, chan_closed = False\<rparr>"

definition close_chan :: "'a chan \<Rightarrow> 'a chan option" where
  "close_chan ch = (if chan_closed ch then None else Some (ch\<lparr>chan_closed := True\<rparr>))"

definition recv_ready :: "'a chan \<Rightarrow> bool" where
  "recv_ready ch = (chan_buf ch \<noteq> [] \<or> chan_closed ch)"

definition recv :: "'a \<Rightarrow> 'a chan \<Rightarrow> 'a \<times> 'a chan" where
  "recv zero ch =
     (case chan_buf ch of
        [] \<Rightarrow> (zero, ch)
      | v # rest \<Rightarrow> (v, ch\<lparr>chan_buf := rest\<rparr>))"

datatype 'a send_result = Sent 'a | WouldBlock | SendPanic

definition send :: "'a \<Rightarrow> 'a chan \<Rightarrow> 'a chan send_result" where
  "send v ch =
     (if chan_closed ch then SendPanic
      else if length (chan_buf ch) < chan_cap ch then Sent (ch\<lparr>chan_buf := chan_buf ch @ [v]\<rparr>)
      else WouldBlock)"

section \<open>Session loop\<close>

text \<open>
  A delivery queue (\<open>chan []Message\<close>) is a reference: \<open>nil\<close>, the client's own
  \<open>connectMessageChannel\<close>, or a channel created by a subscriber, named by a number.
\<close>

datatype msgChan = NilChan | ConnectMessageChannel | UserChan nat

record subscriptionRequest =
  subscription :: Channel
  msgChan :: msgChan

definition zeroSubscriptionRequest :: subscriptionRequest where
  "zeroSubscriptionRequest = \<lparr>subscription = '''', msgChan = NilChan\<rparr>"

text \<open>
  Modelled from the spec: the subscriptions map, which is not among the sources. It
  maps a channel to its delivery queue; adding a channel that is registered is an
  error, a lookup of an unregistered channel is an error, removal deletes the entry.
\<close>

type_synonym subscriptionsMap = "Channel \<Rightarrow> msgChan option"

definition newSubscriptionsMap :: subscriptionsMap where
  "newSubscriptionsMap = (\<lambda>_. None)"

definition Add :: "subscriptionsMap \<Rightarrow> Channel \<Rightarrow> msgChan \<Rightarrow> error + subscriptionsMap" where
  "Add subs ch q =
     (case subs ch of
        Some _ \<Rightarrow> Inl (AlreadySubscribedError ch)
      | None \<Rightarrow> Inr (subs(ch \<mapsto> q)))"

definition Get :: "subscriptionsMap \<Rightarrow> Channel \<Rightarrow> error + msgChan" where
  "Get subs ch =
     (case subs ch of
        None \<Rightarrow> Inl (NotSubscribedError ch)
      | Some q \<Rightarrow> Inr q)"

definition Remove :: "subscriptionsMap \<Rightarrow> Channel \<Rightarrow> subscriptionsMap" where
  "Remove subs ch = subs(ch := None)"

text \<open>
  The protocol client of the session loop is a \<open>*BayeuxClient\<close>, whose source is not
  at hand; the loop is given its five methods as parameters. \<open>clientT\<close> is the
  instance made of the methods of \<open>BayeuxClientT\<close>.
\<close>

record 'b protocol =
  pHandshake :: "'b \<Rightarrow> (Message list \<times> error option) \<times> 'b"
  pConnect :: "'b \<Rightarrow> (Message list \<times> error option) \<times> 'b"
  pSubscribe :: "'b \<Rightarrow> Channel list \<Rightarrow> (Message list \<times> error option) \<times> 'b"
  pUnsubscribe :: "'b \<Rightarrow> Channel list \<Rightarrow> (Message list \<times> error option) \<times> 'b"
  pDisconnect :: "'b \<Rightarrow> (Message list \<times> error option) \<times> 'b"

definition clientT :: "(('t, 'x) BayeuxClientT) protocol" where
  "clientT = \<lparr>pHandshake = Handshake, pConnect = Connect, pSubscribe = Subscribe,
     pUnsubscribe = Unsubscribe, pDisconnect = Disconnect\<rparr>"

text \<open>
  The struct \<open>Client\<close>. Three more fields record what the loop hands to its
  environment, in order: \<open>errors_sent\<close> are the values sent on the error stream of
  \<open>Start\<close>, \<open>delivered\<close> the batches sent to subscribers' channels (a subscriber is
  taken to receive what it is sent), and \<open>timers\<close> the intervals of the goroutines
  started to enqueue a later connect trigger.
\<close>

record 'b Client =
  bclient :: 'b
  subscriptions :: subscriptionsMap
  subscribeRequestChannel :: "subscriptionRequest chan"
  unsubscribeRequestChannel :: "Channel chan"
  connectRequestChannel :: "unit chan"
  connectMessageChannel :: "Message list chan"
  handshakeRequestChannel :: "unit chan"
  shutdown :: "unit chan"
  ignoreError :: "error \<Rightarrow> bool"
  errors_sent :: "error list"
  delivered :: "(nat \<times> Message list) list"
  timers :: "int list"

text \<open>
  \<open>NewClient\<close>, given the outcome of \<open>NewBayeuxClient\<close> (not among the sources) and the
  \<open>IgnoreError\<close> option, whose default refuses every error.
\<close>

definition NewClient :: "error + 'b \<Rightarrow> (error \<Rightarrow> bool) option \<Rightarrow> error + 'b Client" where
  "NewClient made opt_IgnoreError =
     (case made of
        Inl err \<Rightarrow> Inl err
      | Inr bc \<Rightarrow>
         Inr \<lparr>bclient = bc,
              subscriptions = newSubscriptionsMap,
              subscribeRequestChannel = make_chan 10,
              unsubscribeRequestChannel = make_chan 10,
              connectRequestChannel = make_chan 1,
              connectMessageChannel = make_chan 5,
              handshakeRequestChannel = make_chan 0,
              shutdown = make_chan 0,
              ignoreError = (case opt_IgnoreError of None \<Rightarrow> (\<lambda>err. False) | Some f \<Rightarrow> f),
              errors_sent = [],
              delivered = [],
              timers = []\<rparr>)"

text \<open>The outcomes of a call or of a turn of the loop, each with the client it leaves.\<close>

datatype 'b outcome =
    Continue "'b Client"
  | Return "error option" "'b Client"
  | Blocked "'b Client"
  | Panicked "'b Client"
  | Diverges "'b Client"
  | NotReady "'b Client"

fun outcome_client :: "'b outcome \<Rightarrow> 'b Client" where
  "outcome_client (Continue c) = c"
| "outcome_client (Return r c) = c"
| "outcome_client (Blocked c) = c"
| "outcome_client (Panicked c) = c"
| "outcome_client (Diverges c) = c"
| "outcome_client (NotReady c) = c"



text \<open>
  \<open>Client.Disconnect\<close>: the protocol-level disconnect, then the five \<open>close\<close> calls in
  the order of the source, then the return of the protocol-level error. The channel
  \<open>shutdown\<close> is not touched.
\<close>

definition Client_Disconnect :: "'b protocol \<Rightarrow> 'b Client \<Rightarrow> 'b outcome" where
  "Client_Disconnect P c =
     (case pDisconnect P (bclient c) of
        ((resp, err), b') \<Rightarrow>
         (let c0 = c\<lparr>bclient := b'\<rparr> in
          case close_chan (subscribeRequestChannel c0) of
            None \<Rightarrow> Panicked c0
          | Some q1 \<Rightarrow>
             (let c1 = c0\<lparr>subscribeRequestChannel := q1\<rparr> in
              case close_chan (unsubscribeRequestChannel c1) of
                None \<Rightarrow> Panicked c1
              | Some q2 \<Rightarrow>
                 (let c2 = c1\<lparr>unsubscribeRequestChannel := q2\<rparr> in
                  case close_chan (connectRequestChannel c2) of
                    None \<Rightarrow> Panicked c2
                  | Some q3 \<Rightarrow>
                     (let c3 = c2\<lparr>connectRequestChannel := q3\<rparr> in
                      case close_chan (connectMessageChannel c3) of
                        None \<Rightarrow> Panicked c3
                      | Some q4 \<Rightarrow>
                         (let c4 = c3\<lparr>connectMessageChannel := q4\<rparr> in
                          case close_chan (handshakeRequestChannel c4) of
                            None \<Rightarrow> Panicked c4
                          | Some q5 \<Rightarrow>
                              Return err (c4\<lparr>handshakeRequestChannel := q5\<rparr>)))))))"

text \<open>
  The context of \<open>Start\<close> as the loop reads it: whether the channel \<open>ctx.Done()\<close> is
  closed, and what \<open>ctx.Err()\<close> returns.
\<close>

record Context =
  Done :: bool
  Err :: "error option"

text \<open>
  \<open>enqueueConnectRequest\<close>: a \<open>select\<close> with a send and a \<open>default\<close>; a full queue
  leaves everything as it is, a closed one panics.
\<close>

definition enqueueConnectRequest :: "'b Client \<Rightarrow> 'b outcome" where
  "enqueueConnectRequest c =
     (case send () (connectRequestChannel c) of
        Sent q \<Rightarrow> Continue (c\<lparr>connectRequestChannel := q\<rparr>)
      | WouldBlock \<Rightarrow> Continue c
      | SendPanic \<Rightarrow> Panicked c)"

text \<open>
  The send \<open>msgChan <- batch\<close>: a send on a \<open>nil\<close> channel blocks for ever; a send on
  the client's own \<open>connectMessageChannel\<close> needs room, since the loop is its only
  receiver; a batch sent to a subscriber's channel is recorded in \<open>delivered\<close>.
\<close>

definition send_batch :: "msgChan \<Rightarrow> Message list \<Rightarrow> 'b Client \<Rightarrow> 'b outcome" where
  "send_batch q batch c =
     (case q of
        NilChan \<Rightarrow> Blocked c
      | UserChan n \<Rightarrow> Continue (c\<lparr>delivered := delivered c @ [(n, batch)]\<rparr>)
      | ConnectMessageChannel \<Rightarrow>
         (case send batch (connectMessageChannel c) of
            Sent q' \<Rightarrow> Continue (c\<lparr>connectMessageChannel := q'\<rparr>)
          | WouldBlock \<Rightarrow> Blocked c
          | SendPanic \<Rightarrow> Panicked c))"

text \<open>
  The delivery loop of \<open>poll\<close> (lines 283 to 303), from the current \<open>lastChannel\<close> and
  \<open>batch\<close> over the rest of the reply. The \<open>switch\<close> tries \<open>emptyChannel\<close> first, then
  the message's channel, then the default, which looks the queue of \<open>lastChannel\<close> up,
  sends the batch and starts a new one. Nothing follows the loop.
\<close>

fun deliver :: "Channel \<Rightarrow> Message list \<Rightarrow> Message list \<Rightarrow> 'b Client \<Rightarrow> 'b outcome" where
  "deliver lastChannel batch [] c = Continue c"
| "deliver lastChannel batch (m # ms) c =
     (if lastChannel = emptyChannel then deliver (Channel m) (batch @ [m]) ms c
      else if lastChannel = Channel m then deliver lastChannel (batch @ [m]) ms c
      else
       (case Get (subscriptions c) lastChannel of
          Inl err \<Rightarrow> Return (Some err) c
        | Inr q \<Rightarrow>
           (case send_batch q batch c of
              Continue c' \<Rightarrow> deliver (Channel m) [m] ms c'
            | r \<Rightarrow> r)))"

text \<open>
  The loop that registers the queues after a confirmed subscribe (lines 225 to 234):
  an error of \<open>Add\<close> that the predicate ignores is sent on the error stream and the loop
  goes on with the next request; any other error is returned.
\<close>

fun add_subscriptions :: "subscriptionRequest list \<Rightarrow> 'b Client \<Rightarrow> 'b outcome" where
  "add_subscriptions [] c = Continue c"
| "add_subscriptions (r # rs) c =
     (case Add (subscriptions c) (subscription r) (msgChan r) of
        Inl err \<Rightarrow>
          (if ignoreError c err
           then add_subscriptions rs (c\<lparr>errors_sent := errors_sent c @ [err]\<rparr>)
           else Return (Some err) c)
      | Inr subs' \<Rightarrow> add_subscriptions rs (c\<lparr>subscriptions := subs'\<rparr>))"

text \<open>
  The loop over a batch of connect replies (lines 263 to 274): advice to handshake
  sends on \<open>handshakeRequestChannel\<close> (a blocking send, from the loop that is the only
  receiver of that channel); every message starts a goroutine that waits for the
  advised interval.
\<close>

fun handle_advice :: "Message list \<Rightarrow> 'b Client \<Rightarrow> 'b outcome" where
  "handle_advice [] c = Continue c"
| "handle_advice (m # ms) c =
     (if ShouldHandshake (Advice m)
      then (case send () (handshakeRequestChannel c) of
              Sent q \<Rightarrow>
                handle_advice ms
                  (c\<lparr>handshakeRequestChannel := q,
                     timers := timers c @ [IntervalAsDuration (Advice m)]\<rparr>)
            | WouldBlock \<Rightarrow> Blocked c
            | SendPanic \<Rightarrow> Panicked c)
      else handle_advice ms (c\<lparr>timers := timers c @ [IntervalAsDuration (Advice m)]\<rparr>))"

text \<open>
  One turn of the loop of \<open>poll\<close>. The \<open>select\<close> takes one of the cases that are ready,
  and the \<open>default\<close> when none is; which ready case it takes is not determined, so the
  case taken is an argument, and a case that is not ready gives \<open>NotReady\<close>. The drain
  loops \<open>getSubscriptionRequests\<close> and \<open>getUnsubscriptionRequests\<close> take what is
  queued; on a closed channel their receive is always ready and they never reach
  their \<open>default\<close>.
\<close>

datatype select_case =
    CaseShutdown | CaseCtxDone | CaseSubscribe | CaseUnsubscribe
  | CaseHandshake | CaseConnectMessage | CaseConnectRequest | CaseDefault

fun case_ready :: "Context \<Rightarrow> 'b Client \<Rightarrow> select_case \<Rightarrow> bool" where
  "case_ready ctx c CaseShutdown = recv_ready (shutdown c)"
| "case_ready ctx c CaseCtxDone = Done ctx"
| "case_ready ctx c CaseSubscribe = recv_ready (subscribeRequestChannel c)"
| "case_ready ctx c CaseUnsubscribe = recv_ready (unsubscribeRequestChannel c)"
| "case_ready ctx c CaseHandshake = recv_ready (handshakeRequestChannel c)"
| "case_ready ctx c CaseConnectMessage = recv_ready (connectMessageChannel c)"
| "case_ready ctx c CaseConnectRequest = recv_ready (connectRequestChannel c)"
| "case_ready ctx c CaseDefault =
     (\<not> recv_ready (shutdown c) \<and> \<not> Done ctx
      \<and> \<not> recv_ready (subscribeRequestChannel c)
      \<and> \<not> recv_ready (unsubscribeRequestChannel c)
      \<and> \<not> recv_ready (handshakeRequestChannel c)
      \<and> \<not> recv_ready (connectMessageChannel c)
      \<and> \<not> recv_ready (connectRequestChannel c))"

definition poll_subscribe :: "'b protocol \<Rightarrow> 'b Client \<Rightarrow> 'b outcome" where
  "poll_subscribe P c =
     (case recv zeroSubscriptionRequest (subscribeRequestChannel c) of
        (subReq, q) \<Rightarrow>
         (if chan_closed q then Diverges (c\<lparr>subscribeRequestChannel := q\<rparr>)
          else
           (let subReqs = chan_buf q @ [subReq];
                channels = map subscription subReqs;
                c1 = c\<lparr>subscribeRequestChannel := q\<lparr>chan_buf := []\<rparr>\<rparr>
            in case pSubscribe P (bclient c1) channels of
                 ((resp, Some err), b') \<Rightarrow>
                   (if ignoreError c1 err
                    then Continue (c1\<lparr>bclient := b', errors_sent := errors_sent c1 @ [err]\<rparr>)
                    else Return (Some err) (c1\<lparr>bclient := b'\<rparr>))
               | ((resp, None), b') \<Rightarrow>
                   (case add_subscriptions subReqs (c1\<lparr>bclient := b'\<rparr>) of
                      Continue c2 \<Rightarrow> enqueueConnectRequest c2
                    | r \<Rightarrow> r))))"

definition poll_unsubscribe :: "'b protocol \<Rightarrow> 'b Client \<Rightarrow> 'b outcome" where
  "poll_unsubscribe P c =
     (case recv emptyChannel (unsubscribeRequestChannel c) of
        (unsubReq, q) \<Rightarrow>
         (if chan_closed q then Diverges (c\<lparr>unsubscribeRequestChannel := q\<rparr>)
          else
           (let channels = chan_buf q @ [unsubReq];
                c1 = c\<lparr>unsubscribeRequestChannel := q\<lparr>chan_buf := []\<rparr>\<rparr>
            in case pUnsubscribe P (bclient c1) channels of
                 ((resp, Some err), b') \<Rightarrow>
                   (if ignoreError c1 err
                    then Continue (c1\<lparr>bclient := b', errors_sent := errors_sent c1 @ [err]\<rparr>)
                    else Return (Some err) (c1\<lparr>bclient := b'\<rparr>))
               | ((resp, None), b') \<Rightarrow>
                   Continue (c1\<lparr>bclient := b',
                               subscriptions := foldl Remove (subscriptions c1) channels\<rparr>))))"

definition poll_handshake :: "'b protocol \<Rightarrow> 'b Client \<Rightarrow> 'b outcome" where
  "poll_handshake P c =
     (case recv () (handshakeRequestChannel c) of
        (u, q) \<Rightarrow>
         (let c1 = c\<lparr>handshakeRequestChannel := q\<rparr> in
          case pHandshake P (bclient c1) of
            ((resp, Some err), b') \<Rightarrow> Return (Some err) (c1\<lparr>bclient := b'\<rparr>)
          | ((resp, None), b') \<Rightarrow> enqueueConnectRequest (c1\<lparr>bclient := b'\<rparr>)))"

definition poll_connect_message :: "'b Client \<Rightarrow> 'b outcome" where
  "poll_connect_message c =
     (case recv [] (connectMessageChannel c) of
        (ms, q) \<Rightarrow> handle_advice ms (c\<lparr>connectMessageChannel := q\<rparr>))"

definition poll_connect_request :: "'b protocol \<Rightarrow> 'b Client \<Rightarrow> 'b outcome" where
  "poll_connect_request P c =
     (case recv () (connectRequestChannel c) of
        (u, q) \<Rightarrow>
         (let c1 = c\<lparr>connectRequestChannel := q\<rparr> in
          case pConnect P (bclient c1) of
            ((ms, Some err), b') \<Rightarrow> Return (Some err) (c1\<lparr>bclient := b'\<rparr>)
          | ((ms, None), b') \<Rightarrow> deliver emptyChannel [] ms (c1\<lparr>bclient := b'\<rparr>)))"

definition poll_step :: "'b protocol \<Rightarrow> Context \<Rightarrow> select_case \<Rightarrow> 'b Client \<Rightarrow> 'b outcome" where
  "poll_step P ctx k c =
     (if \<not> case_ready ctx c k then NotReady c
      else (case k of
              CaseShutdown \<Rightarrow> Return None (c\<lparr>shutdown := snd (recv () (shutdown c))\<rparr>)
            | CaseCtxDone \<Rightarrow>
               (case Err ctx of
                  Some err \<Rightarrow> Return (Some err) c
                | None \<Rightarrow> Return None c)
            | CaseSubscribe \<Rightarrow> poll_subscribe P c
            | CaseUnsubscribe \<Rightarrow> poll_unsubscribe P c
            | CaseHandshake \<Rightarrow> poll_handshake P c
            | CaseConnectMessage \<Rightarrow> poll_connect_message c
            | CaseConnectRequest \<Rightarrow> poll_connect_request P c
            | CaseDefault \<Rightarrow> enqueueConnectRequest c))"

text \<open>
  \<open>poll\<close> along a schedule: for each turn, the context as the \<open>select\<close> finds it and
  the case it takes. At the end of the schedule the loop is still running
  (\<open>Continue\<close>); any other outcome of a turn ends the run.
\<close>

fun poll :: "'b protocol \<Rightarrow> (Context \<times> select_case) list \<Rightarrow> 'b Client \<Rightarrow> 'b outcome" where
  "poll P [] c = Continue c"
| "poll P ((ctx, k) # sched) c =
     (case poll_step P ctx k c of
        Continue c' \<Rightarrow> poll P sched c'
      | r \<Rightarrow> r)"

text \<open>
  \<open>start\<close>, the goroutine of \<open>Start\<close>: the handshake, the registration of the client's
  own queue for the connect channel, the loop, and the protocol-level disconnect after
  a clean exit of the loop. Every error goes to the error stream.
\<close>

definition start :: "'b protocol \<Rightarrow> (Context \<times> select_case) list \<Rightarrow> 'b Client \<Rightarrow> 'b outcome" where
  "start P sched c =
     (case pHandshake P (bclient c) of
        ((resp, Some err), b') \<Rightarrow>
          Return None (c\<lparr>bclient := b', errors_sent := errors_sent c @ [err]\<rparr>)
      | ((resp, None), b') \<Rightarrow>
         (let c1 = c\<lparr>bclient := b',
                     subscriptions :=
                       (case Add (subscriptions c) MetaConnect ConnectMessageChannel of
                          Inl _ \<Rightarrow> subscriptions c
                        | Inr subs' \<Rightarrow> subs')\<rparr>
          in case poll P sched c1 of
               Return (Some err) c2 \<Rightarrow>
                 Return None (c2\<lparr>errors_sent := errors_sent c2 @ [err]\<rparr>)
             | Return None c2 \<Rightarrow>
                (case pDisconnect P (bclient c2) of
                   ((resp', Some err), b'') \<Rightarrow>
                     Return None (c2\<lparr>bclient := b'', errors_sent := errors_sent c2 @ [err]\<rparr>)
                 | ((resp', None), b'') \<Rightarrow> Return None (c2\<lparr>bclient := b''\<rparr>))
             | r \<Rightarrow> r))"

section \<open>Transports, messages and clients of the concrete runs\<close>

text \<open>
  A transport that answers every request with the same reply, and one that answers
  from a script, reply by reply, and fails once the script is used up.
\<close>

definition fixed_reply :: "Message list \<Rightarrow> string \<Rightarrow> unit transport" where
  "fixed_reply resp ttype =
     \<lparr>request_method = (\<lambda>s ms. ((resp, None), s)), transportType = ttype, tstate = ()\<rparr>"

definition scripted ::
  "(Message list \<times> error option) list \<Rightarrow> string \<Rightarrow>
     ((Message list \<times> error option) list) transport" where
  "scripted script ttype =
     \<lparr>request_method =
        (\<lambda>s ms. case s of
                   [] \<Rightarrow> (([], Some (OtherError ''connection refused'')), [])
                 | r # rest \<Rightarrow> (r, rest)),
      transportType = ttype,
      tstate = script\<rparr>"

definition on_channel :: "Channel \<Rightarrow> Message" where
  "on_channel ch = zeroMessage\<lparr>Channel := ch\<rparr>"

definition handshake_ok :: Message where
  "handshake_ok = zeroMessage\<lparr>Channel := MetaHandshake, ClientID := ''id1'', Successful := True\<rparr>"

definition handshake_refused :: Message where
  "handshake_refused =
     zeroMessage\<lparr>Channel := MetaHandshake, Successful := False, Error := ''403::denied''\<rparr>"


definition fresh_client :: "'t transport \<Rightarrow> ('t, 'x) BayeuxClientT" where
  "fresh_client t = \<lparr>stateMachine = UNCONNECTED, client = t, state = '''', exts = []\<rparr>"


text \<open>
  An HTTP environment in which the server cannot be reached: \<open>Do\<close> returns no response
  and a network error. And one in which the server answers 503 with a body.
\<close>

definition network_down :: http_env where
  "network_down =
     \<lparr>Encode = (\<lambda>ms. Inr []),
      NewRequestWithContext = (\<lambda>buf. None),
      Do = (\<lambda>buf. (None, Some (OtherError ''dial tcp: connection refused''))),
      Decode = (\<lambda>body. Inr [])\<rparr>"

definition unavailable :: http_env where
  "unavailable =
     \<lparr>Encode = (\<lambda>ms. Inr []),
      NewRequestWithContext = (\<lambda>buf. None),
      Do = (\<lambda>buf. (Some \<lparr>StatusCode = 503, Status = ''503 Service Unavailable'',
                             Body = Inr [111, 111, 112, 115]\<rparr>, None)),
      Decode = (\<lambda>body. Inr [])\<rparr>"

text \<open>A websocket transport after a successful dial, with one request counted.\<close>

definition dialled :: BayeuxTransportWebsocket where
  "dialled = NewBayeuxTransportWebsocket\<lparr>conn := Some 0, ready := True\<rparr>"


text \<open>
  Whether the five queues that \<open>Client.Disconnect\<close> closes are all open, or all
  closed.
\<close>

definition queues_open :: "'b Client \<Rightarrow> bool" where
  "queues_open c =
     (\<not> chan_closed (subscribeRequestChannel c) \<and> \<not> chan_closed (unsubscribeRequestChannel c)
      \<and> \<not> chan_closed (connectRequestChannel c) \<and> \<not> chan_closed (connectMessageChannel c)
      \<and> \<not> chan_closed (handshakeRequestChannel c))"

definition queues_closed :: "'b Client \<Rightarrow> bool" where
  "queues_closed c =
     (chan_closed (subscribeRequestChannel c) \<and> chan_closed (unsubscribeRequestChannel c)
      \<and> chan_closed (connectRequestChannel c) \<and> chan_closed (connectMessageChannel c)
      \<and> chan_closed (handshakeRequestChannel c))"

text \<open>
  Contexts, messages and sessions of the concrete runs: a context that is not
  cancelled and a cancelled one; a message with a payload; a connect reply that
  advises a new handshake; the session that \<open>NewClient\<close> returns around a protocol
  client; and that session with two subscribers registered.
\<close>

definition background :: Context where
  "background = \<lparr>Done = False, Err = None\<rparr>"


definition data_on :: "Channel \<Rightarrow> string \<Rightarrow> Message" where
  "data_on ch d = zeroMessage\<lparr>Channel := ch, Successful := True, Ext := [(''data'', d)]\<rparr>"

definition advised_handshake :: Message where
  "advised_handshake =
     zeroMessage\<lparr>Channel := MetaConnect, Successful := True,
       Advice := Some \<lparr>Reconnect = ''handshake'', Interval = 0, Timeout = 0\<rparr>\<rparr>"

definition new_session :: "'b \<Rightarrow> 'b Client" where
  "new_session bc = projr (NewClient (Inr bc) None)"

definition two_subscribers :: "'b \<Rightarrow> 'b Client" where
  "two_subscribers bc =
     (new_session bc)\<lparr>subscriptions :=
        newSubscriptionsMap(MetaConnect \<mapsto> ConnectMessageChannel,
                            ''/a'' \<mapsto> UserChan 1, ''/b'' \<mapsto> UserChan 2)\<rparr>"

definition is_Blocked :: "'b outcome \<Rightarrow> bool" where
  "is_Blocked r = (case r of Blocked c \<Rightarrow> True | _ \<Rightarrow> False)"



section \<open>Verification: the protocol client\<close>

lemma handshake_request_eq:
  "handshake_request tt =
     Inr [zeroMessage\<lparr>Channel := MetaHandshake, Version := ''1.0'',
            SupportedConnectionTypes :=
              (if tt = ConnectionTypeWebsocket
               then [ConnectionTypeLongPolling, ConnectionTypeWebsocket]
               else [ConnectionTypeLongPolling])\<rparr>]"
  by (simp add: handshake_request_def AddVersion_def AddSupportedConnectionType_def
      BuildHandshake_def NewHandshakeRequestBuilder_def)

lemma request_fst: "fst (request b ms) = fst (transport_request (client b) ms)"
  by (auto simp: request_def Let_def split: prod.splits option.splits)

lemma request_client: "client (snd (request b ms)) = snd (transport_request (client b) ms)"
  by (auto simp: request_def Let_def split: prod.splits option.splits)


lemma recording_sent:
  "sent (snd (transport_request (recording t) ms)) = [ms]"
  by (simp add: transport_request_def recording_def sent_def split: prod.splits)

lemma find_handshake_none:
  "\<forall>m\<in>set resp. Channel m \<noteq> MetaHandshake \<Longrightarrow> find_handshake z resp = z"
  by (induction resp arbitrary: z) auto

lemma Handshake_fst:
  assumes "ProcessEvent (stateMachine b) handshakeSent = Inr sm"
      and "handshake_request (transportType (client b)) = Inr ms"
      and "fst (transport_request (client b) ms) = (resp, None)"
  shows "fst (Handshake b) =
     (if length resp > 1 then (resp, Some (HandshakeFailedError ErrTooManyMessages))
      else if Channel (find_handshake zeroMessage resp) = emptyChannel
      then (resp, Some (HandshakeFailedError ErrBadChannel))
      else if \<not> Successful (find_handshake zeroMessage resp)
      then (resp, Some (newHandshakeError (Error (find_handshake zeroMessage resp))))
      else (resp, None))"
proof -
  have "fst (request (b\<lparr>stateMachine := sm\<rparr>) ms) = (resp, None)"
    using assms(3) by (simp add: request_fst)
  then obtain b2 where "request (b\<lparr>stateMachine := sm\<rparr>) ms = ((resp, None), b2)"
    by (cases "request (b\<lparr>stateMachine := sm\<rparr>) ms") auto
  then show ?thesis
    using assms(1,2) by (simp add: Handshake_def Let_def)
qed

lemma Handshake_client:
  assumes "ProcessEvent (stateMachine b) handshakeSent = Inr sm"
      and "handshake_request (transportType (client b)) = Inr ms"
  shows "client (snd (Handshake b)) = snd (transport_request (client b) ms)"
proof -
  have "client (snd (request (b\<lparr>stateMachine := sm\<rparr>) ms)) = snd (transport_request (client b) ms)"
    by (simp add: request_client)
  then show ?thesis
    using assms
    by (cases "request (b\<lparr>stateMachine := sm\<rparr>) ms")
       (auto simp: Handshake_def Let_def split: option.splits)
qed

text \<open>
  C3. Whatever reply batch \<open>Handshake\<close> receives from the transport: two or more messages
  fail with \<open>ErrTooManyMessages\<close> whatever their channels; otherwise a batch without a
  message on the handshake meta-channel (the empty batch included) fails with
  \<open>ErrBadChannel\<close>; a single handshake message with \<open>successful = false\<close> fails with the
  handshake error made of the server's error string; and \<open>Handshake\<close> succeeds exactly
  when the batch is a single successful message on the handshake meta-channel.
\<close>

theorem Handshake_reply_validation:
  assumes "ProcessEvent (stateMachine b) handshakeSent = Inr sm"
      and "handshake_request (transportType (client b)) = Inr ms"
      and "fst (transport_request (client b) ms) = (resp, None)"
  shows "(2 \<le> length resp \<longrightarrow>
            fst (Handshake b) = (resp, Some (HandshakeFailedError ErrTooManyMessages)))
       \<and> (length resp < 2 \<and> (\<forall>m\<in>set resp. Channel m \<noteq> MetaHandshake) \<longrightarrow>
            fst (Handshake b) = (resp, Some (HandshakeFailedError ErrBadChannel)))
       \<and> (\<forall>m. resp = [m] \<and> Channel m = MetaHandshake \<and> \<not> Successful m \<longrightarrow>
            fst (Handshake b) = (resp, Some (newHandshakeError (Error m))))
       \<and> (snd (fst (Handshake b)) = None \<longleftrightarrow>
            (\<exists>m. resp = [m] \<and> Channel m = MetaHandshake \<and> Successful m))"
proof -
  note H = Handshake_fst [OF assms]
  have c1: "2 \<le> length resp \<longrightarrow>
            fst (Handshake b) = (resp, Some (HandshakeFailedError ErrTooManyMessages))"
    using H by simp
  have c2: "length resp < 2 \<and> (\<forall>m\<in>set resp. Channel m \<noteq> MetaHandshake) \<longrightarrow>
            fst (Handshake b) = (resp, Some (HandshakeFailedError ErrBadChannel))"
    using H by (auto simp: find_handshake_none zeroMessage_def emptyChannel_def)
  have c3: "\<forall>m. resp = [m] \<and> Channel m = MetaHandshake \<and> \<not> Successful m \<longrightarrow>
            fst (Handshake b) = (resp, Some (newHandshakeError (Error m)))"
    using H by (auto simp: emptyChannel_def MetaHandshake_def)
  have c4: "snd (fst (Handshake b)) = None \<longleftrightarrow>
            (\<exists>m. resp = [m] \<and> Channel m = MetaHandshake \<and> Successful m)"
  proof (cases resp)
    case Nil
    then show ?thesis using H by (simp add: zeroMessage_def emptyChannel_def)
  next
    case (Cons m rest)
    show ?thesis
    proof (cases rest)
      case Nil
      then show ?thesis using H Cons
        by (auto simp: zeroMessage_def emptyChannel_def MetaHandshake_def)
    next
      case (Cons m' rest')
      then show ?thesis using H \<open>resp = m # rest\<close> by simp
    qed
  qed
  from c1 c2 c3 c4 show ?thesis by blast
qed

theorem Handshake_reply_validation_witness:
  "ProcessEvent (stateMachine (fresh_client (fixed_reply [handshake_refused] ''long-polling'')
          :: (unit, unit) BayeuxClientT)) handshakeSent = Inr CONNECTING
   \<and> fst (transport_request (fixed_reply [handshake_refused] ''long-polling'')
            [zeroMessage\<lparr>Channel := MetaHandshake, Version := ''1.0'',
               SupportedConnectionTypes := [ConnectionTypeLongPolling]\<rparr>])
       = ([handshake_refused], None)
   \<and> fst (Handshake (fresh_client (fixed_reply [handshake_refused] ''long-polling'')
          :: (unit, unit) BayeuxClientT))
       = ([handshake_refused], Some (HandshakeRequestError ''403::denied''))"
proof -
  let ?b = "fresh_client (fixed_reply [handshake_refused] ''long-polling'')
              :: (unit, unit) BayeuxClientT"
  let ?ms = "[zeroMessage\<lparr>Channel := MetaHandshake, Version := ''1.0'',
               SupportedConnectionTypes := [ConnectionTypeLongPolling]\<rparr>]"
  have h1: "ProcessEvent (stateMachine ?b) handshakeSent = Inr CONNECTING"
    by (simp add: fresh_client_def)
  have h2: "handshake_request (transportType (client ?b)) = Inr ?ms"
    by (simp add: handshake_request_eq fresh_client_def fixed_reply_def
        ConnectionTypeWebsocket_def)
  have h3: "fst (transport_request (client ?b) ?ms) = ([handshake_refused], None)"
    by (simp add: transport_request_def fresh_client_def fixed_reply_def)
  have "fst (Handshake ?b)
          = ([handshake_refused], Some (newHandshakeError (Error handshake_refused)))"
    using Handshake_reply_validation [OF h1 h2 h3]
    by (simp add: handshake_refused_def)
  then show ?thesis
    using h1 h3
    by (simp add: fresh_client_def newHandshakeError_def handshake_refused_def)
qed

text \<open>
  C5. In every state in which the state machine is not \<open>CONNECTED\<close> or the stored
  client-id is empty, \<open>Connect\<close> fails with \<open>ErrClientNotConnected\<close>, and \<open>Subscribe\<close>,
  \<open>Unsubscribe\<close> and \<open>Disconnect\<close> fail with their own error wrapping
  \<open>ErrClientNotConnected\<close>; each returns the client as it was, transport included, so
  nothing has been handed to the transport.
\<close>

theorem not_connected_calls_fail:
  assumes "\<not> IsConnected (stateMachine b) \<or> state b = ''''"
  shows "Connect b = (([], Some ErrClientNotConnected), b)
       \<and> Subscribe b chs = (([], Some (SubscriptionFailedError chs ErrClientNotConnected)), b)
       \<and> Unsubscribe b chs = (([], Some (UnsubscribeFailedError chs ErrClientNotConnected)), b)
       \<and> Disconnect b = (([], Some (DisconnectFailedError (Some ErrClientNotConnected))), b)"
  using assms by (auto simp: Connect_def Subscribe_def Unsubscribe_def Disconnect_def)

theorem not_connected_calls_fail_witness:
  "\<not> IsConnected (stateMachine (fresh_client (recording (fixed_reply [] ''long-polling''))
        :: (unit \<times> Message list list, unit) BayeuxClientT))
   \<and> state (fresh_client (recording (fixed_reply [] ''long-polling''))
        :: (unit \<times> Message list list, unit) BayeuxClientT) = ''''
   \<and> snd (fst (Connect (fresh_client (recording (fixed_reply [] ''long-polling''))
        :: (unit \<times> Message list list, unit) BayeuxClientT))) = Some ErrClientNotConnected
   \<and> sent (client (snd (Subscribe (fresh_client (recording (fixed_reply [] ''long-polling''))
        :: (unit \<times> Message list list, unit) BayeuxClientT) [''/foo/bar'']))) = []"
proof -
  let ?b = "fresh_client (recording (fixed_reply [] ''long-polling''))
              :: (unit \<times> Message list list, unit) BayeuxClientT"
  have h: "\<not> IsConnected (stateMachine ?b) \<or> state ?b = ''''"
    by (simp add: fresh_client_def)
  show ?thesis
    using not_connected_calls_fail [OF h, of "[''/foo/bar'']"]
    by (simp add: fresh_client_def recording_def sent_def fixed_reply_def IsConnected_def)
qed

text \<open>
  C8. For every transport, when the state machine lets the handshake start, the one
  batch that \<open>Handshake\<close> hands to the transport is a single message with protocol
  version "1.0" whose supported connection types contain long-polling, and contain
  websocket exactly when the transport's \<open>transportType\<close> is websocket.
\<close>

theorem Handshake_request_contents:
  assumes "ProcessEvent (stateMachine b) handshakeSent = Inr sm"
  shows "\<exists>m. sent (client (snd (Handshake (b\<lparr>client := recording t\<rparr>)))) = [[m]]
           \<and> handshake_request (transportType t) = Inr [m]
           \<and> Version m = ''1.0''
           \<and> ConnectionTypeLongPolling \<in> set (SupportedConnectionTypes m)
           \<and> (ConnectionTypeWebsocket \<in> set (SupportedConnectionTypes m)
                \<longleftrightarrow> transportType t = ConnectionTypeWebsocket)"
proof -
  obtain m where m: "handshake_request (transportType t) = Inr [m]"
    and props: "Version m = ''1.0''"
      "ConnectionTypeLongPolling \<in> set (SupportedConnectionTypes m)"
      "ConnectionTypeWebsocket \<in> set (SupportedConnectionTypes m)
         \<longleftrightarrow> transportType t = ConnectionTypeWebsocket"
    by (simp add: handshake_request_eq ConnectionTypeLongPolling_def ConnectionTypeWebsocket_def)
  have tt: "transportType (recording t) = transportType t"
    by (simp add: recording_def)
  have "client (snd (Handshake (b\<lparr>client := recording t\<rparr>)))
          = snd (transport_request (recording t) [m])"
    using Handshake_client [of "b\<lparr>client := recording t\<rparr>" sm "[m]"] assms m tt by simp
  then have "sent (client (snd (Handshake (b\<lparr>client := recording t\<rparr>)))) = [[m]]"
    by (simp add: recording_sent)
  with m props show ?thesis by blast
qed

theorem Handshake_request_contents_witness:
  "ProcessEvent (stateMachine (fresh_client (recording (fixed_reply [] ''x''))
        :: (unit \<times> Message list list, unit) BayeuxClientT)) handshakeSent = Inr CONNECTING
   \<and> (\<exists>m. sent (client (snd (Handshake
              ((fresh_client (recording (fixed_reply [] ''x''))
                 :: (unit \<times> Message list list, unit) BayeuxClientT)
               \<lparr>client := recording (fixed_reply [handshake_ok] ''websocket'')\<rparr>)))) = [[m]]
          \<and> Version m = ''1.0''
          \<and> ConnectionTypeWebsocket \<in> set (SupportedConnectionTypes m))"
proof -
  let ?b = "fresh_client (recording (fixed_reply [] ''x''))
              :: (unit \<times> Message list list, unit) BayeuxClientT"
  have h: "ProcessEvent (stateMachine ?b) handshakeSent = Inr CONNECTING"
    by (simp add: fresh_client_def)
  have tt: "transportType (fixed_reply [handshake_ok] ''websocket'') = ConnectionTypeWebsocket"
    by (simp add: fixed_reply_def ConnectionTypeWebsocket_def)
  show ?thesis
    using h Handshake_request_contents [OF h, of "fixed_reply [handshake_ok] ''websocket''"] tt
    by auto
qed



lemma NewBayeuxClientT_fresh: "NewBayeuxClientT (Some t) = Inr (fresh_client t)"
  by (simp add: NewBayeuxClientT_def fresh_client_def)
section \<open>Verification: the transports\<close>

lemma http_request_non_200:
  assumes "Encode env ms = Inr buf"
      and "NewRequestWithContext env buf = None"
      and "Do env buf = (Some r, None)"
      and "StatusCode r \<noteq> 200"
      and "Body r = Inr body"
  shows "http_request env ms =
           Returned ([], Some (BadResponseError (StatusCode r) (Status r) (Some body)))"
  using assms by (simp add: http_request_def parseResponse_def)

lemma http_request_unavailable:
  "http_request unavailable ms =
     Returned ([], Some (BadResponseError 503 ''503 Service Unavailable''
                           (Some [111, 111, 112, 115])))"
  by (simp add: http_request_def parseResponse_def unavailable_def)

lemma http_request_no_response:
  assumes "Encode env ms = Inr buf"
      and "NewRequestWithContext env buf = None"
      and "Do env buf = (None, Some err)"
  shows "http_request env ms = Panic ''invalid memory address or nil pointer dereference''"
  using assms by (simp add: http_request_def)

text \<open>
  C2, at the failing input. When the server cannot be reached, \<open>http.Client.Do\<close> returns
  a \<open>nil\<close> response with the error; \<open>request\<close> then reads \<open>response.StatusCode\<close> to
  build its \<open>BadResponseError\<close> and panics on the nil pointer: the call does not return
  a \<open>BadResponse\<close> error, it crashes.
\<close>

theorem http_request_network_failure_panics:
  "http_request network_down [on_channel MetaConnect]
     = Panic ''invalid memory address or nil pointer dereference''"
  by (simp add: http_request_def network_down_def)




section \<open>Verification: the session loop\<close>

lemma new_session_eq:
  "new_session bc =
     \<lparr>bclient = bc,
      subscriptions = newSubscriptionsMap,
      subscribeRequestChannel = make_chan 10,
      unsubscribeRequestChannel = make_chan 10,
      connectRequestChannel = make_chan 1,
      connectMessageChannel = make_chan 5,
      handshakeRequestChannel = make_chan 0,
      shutdown = make_chan 0,
      ignoreError = (\<lambda>err. False),
      errors_sent = [],
      delivered = [],
      timers = []\<rparr>"
  by (simp add: new_session_def NewClient_def)

lemma deliver_one_run:
  "\<forall>m\<in>set ms. Channel m = ch \<Longrightarrow> l = emptyChannel \<or> l = ch \<Longrightarrow>
   deliver l batch ms c = Continue c"
  by (induction ms arbitrary: l batch) auto

text \<open>
  C1, at the failing input. With subscribers registered for \<open>/a\<close> and \<open>/b\<close>, the loop
  over the connect reply \<open>[/a, /a, /b]\<close> sends the batch \<open>[/a, /a]\<close> to the queue of
  \<open>/a\<close> and ends: the final run \<open>[/b]\<close> is still in \<open>batch\<close> when the loop is over and
  is never sent to the queue of \<open>/b\<close>.
\<close>

theorem deliver_drops_final_run:
  "deliver emptyChannel []
       [data_on ''/a'' ''1'', data_on ''/a'' ''2'', data_on ''/b'' ''3'']
       (two_subscribers bc)
     = Continue ((two_subscribers bc)
         \<lparr>delivered := [(1, [data_on ''/a'' ''1'', data_on ''/a'' ''2''])]\<rparr>)"
  by (simp add: two_subscribers_def new_session_eq emptyChannel_def data_on_def Get_def
      send_batch_def zeroMessage_def newSubscriptionsMap_def)

text \<open>
  C7, at the failing input. The client that \<open>NewClient\<close> returns has a handshake-trigger
  queue of capacity zero. With it, a session whose connect reply advises a new
  handshake stops for ever: the loop sends the trigger on the unbuffered queue of which
  it is itself the only receiver.
\<close>

theorem NewClient_handshake_queue_unbuffered:
  "chan_cap (handshakeRequestChannel
      (projr (NewClient (Inr (fresh_client (scripted
          [([handshake_ok], None), ([advised_handshake, data_on ''/a'' ''1''], None)]
          ''long-polling'') :: ((Message list \<times> error option) list, unit) BayeuxClientT))
        None))) = 0
   \<and> is_Blocked (start clientT
        [(background, CaseDefault), (background, CaseConnectRequest),
         (background, CaseConnectMessage)]
        (new_session (fresh_client (scripted
          [([handshake_ok], None), ([advised_handshake, data_on ''/a'' ''1''], None)]
          ''long-polling'') :: ((Message list \<times> error option) list, unit) BayeuxClientT)))"
proof -
  let ?b = "fresh_client (scripted
          [([handshake_ok], None), ([advised_handshake, data_on ''/a'' ''1''], None)]
          ''long-polling'') :: ((Message list \<times> error option) list, unit) BayeuxClientT"
  have cap0: "chan_cap (handshakeRequestChannel (projr (NewClient (Inr ?b) None))) = 0"
    by (simp add: NewClient_def make_chan_def)
  have blocked: "is_Blocked (start clientT
        [(background, CaseDefault), (background, CaseConnectRequest),
         (background, CaseConnectMessage)] (new_session ?b))"
    apply (simp add: start_def clientT_def new_session_eq fresh_client_def scripted_def
        Handshake_def handshake_request_def AddVersion_def AddSupportedConnectionType_def
        BuildHandshake_def NewHandshakeRequestBuilder_def request_def transport_request_def
        ConnectionTypeWebsocket_def ConnectionTypeLongPolling_def handshake_ok_def
        zeroMessage_def MetaHandshake_def emptyChannel_def Add_def newSubscriptionsMap_def
        MetaConnect_def)
    apply (simp add: poll_step_def background_def make_chan_def recv_ready_def
        enqueueConnectRequest_def send_def poll_connect_request_def recv_def clientT_def
        Connect_def IsConnected_def connect_request_def request_def transport_request_def
        zeroMessage_def MetaConnect_def advised_handshake_def data_on_def
        emptyChannel_def Get_def send_batch_def poll_connect_message_def ShouldHandshake_def
        is_Blocked_def)
    done
  from cap0 blocked show ?thesis by simp
qed

lemma Client_Disconnect_first:
  assumes "queues_open c"
  shows "Client_Disconnect P c =
           Return (snd (fst (pDisconnect P (bclient c))))
             (c\<lparr>bclient := snd (pDisconnect P (bclient c)),
                subscribeRequestChannel := (subscribeRequestChannel c)\<lparr>chan_closed := True\<rparr>,
                unsubscribeRequestChannel := (unsubscribeRequestChannel c)\<lparr>chan_closed := True\<rparr>,
                connectRequestChannel := (connectRequestChannel c)\<lparr>chan_closed := True\<rparr>,
                connectMessageChannel := (connectMessageChannel c)\<lparr>chan_closed := True\<rparr>,
                handshakeRequestChannel := (handshakeRequestChannel c)\<lparr>chan_closed := True\<rparr>\<rparr>)"
  using assms
  by (simp add: Client_Disconnect_def queues_open_def close_chan_def Let_def
      split: prod.splits)

lemma Client_Disconnect_again:
  assumes "queues_closed c"
  shows "Client_Disconnect P c = Panicked (c\<lparr>bclient := snd (pDisconnect P (bclient c))\<rparr>)"
  using assms
  by (simp add: Client_Disconnect_def queues_closed_def close_chan_def Let_def
      split: prod.splits)



lemma Client_Disconnect_leaves_shutdown:
  "queues_open c \<or> queues_closed c \<Longrightarrow>
   shutdown (outcome_client (Client_Disconnect P c)) = shutdown c"
  by (auto simp: Client_Disconnect_first Client_Disconnect_again)

lemma shutdown_not_ready_after_Disconnect:
  "\<not> case_ready ctx (outcome_client (Client_Disconnect P (new_session bc))) CaseShutdown"
proof -
  have "queues_open (new_session bc)"
    by (simp add: queues_open_def new_session_eq make_chan_def)
  then have "shutdown (outcome_client (Client_Disconnect P (new_session bc)))
               = shutdown (new_session bc)"
    by (simp add: Client_Disconnect_leaves_shutdown)
  then show ?thesis
    by (simp add: new_session_eq make_chan_def recv_ready_def)
qed



























end
